theory Spec2Isabelle
  imports Main
begin

section \<open>The smart door of \<open>examples/complex_project\<close>\<close>

text \<open>
  The three C++ classes \<open>Servo\<close>, \<open>Contractor\<close> and \<open>SmartDoor\<close> are embedded as
  records; every member function takes the object and returns the updated object, paired
  with the \<open>bool\<close> it returns when it has one. A member function \<open>C::f\<close> is the
  constant \<open>C_f\<close>, a constructor \<open>C::C\<close> is \<open>C_C\<close>.

  Conventions of the embedding:
  \<^item> C++ \<open>int\<close> is HOL \<open>int\<close> where the code only stores and compares the value
    (angles, positions, speeds). The only arithmetic in the three classes is
    \<open>openAttempts++\<close>: its result is brought back into the 32 bits of an \<open>int\<close> by
    \<open>int_wrap\<close>, so that \<open>INT_MAX + 1\<close> is \<open>INT_MIN\<close>. (The C++ standard leaves
    signed overflow undefined; the wrap-around is what two's-complement targets compute.)
  \<^item> \<open>std::cout\<close> and \<open>std::cerr\<close> output is not modelled: no branch depends on it.
  \<^item> Two records of one theory cannot share a field name, so \<open>Servo::name\<close> is
    \<open>s_name\<close>, \<open>Contractor::name\<close> is \<open>c_name\<close> and \<open>Contractor::currentState\<close> is
    \<open>c_currentState\<close>; \<open>SmartDoor::currentState\<close> keeps its name.
  \<^item> The pointers \<open>lockServo\<close> and \<open>doorActuator\<close> are owned by the door alone
    (allocated in its constructor, private, never handed out), so the pointed-to objects
    are fields of the door record.
\<close>

subsection \<open>\<open>Servo\<close> (Servo.h, Servo.cpp)\<close>

record Servo =
  currentAngle :: int
  minAngle :: int
  maxAngle :: int
  isCalibrated :: bool
  s_name :: string

definition Servo_Servo :: "string \<Rightarrow> Servo" where
  "Servo_Servo servoName =
     \<lparr>currentAngle = 90, minAngle = 0, maxAngle = 180, isCalibrated = False,
      s_name = servoName\<rparr>"

definition Servo_calibrate :: "Servo \<Rightarrow> bool \<times> Servo" where
  "Servo_calibrate s = (True, s\<lparr>currentAngle := 0, isCalibrated := True\<rparr>)"

definition Servo_setAngle :: "int \<Rightarrow> Servo \<Rightarrow> bool \<times> Servo" where
  "Servo_setAngle angle s =
     (if angle < minAngle s \<or> angle > maxAngle s then (False, s)
      else (True, s\<lparr>currentAngle := angle\<rparr>))"

definition Servo_getAngle :: "Servo \<Rightarrow> int" where
  "Servo_getAngle s = currentAngle s"

definition Servo_isCalibratedStatus :: "Servo \<Rightarrow> bool" where
  "Servo_isCalibratedStatus s = isCalibrated s"

definition Servo_reset :: "Servo \<Rightarrow> Servo" where
  "Servo_reset s = s\<lparr>currentAngle := 90\<rparr>"

subsection \<open>\<open>Contractor\<close> (Contractor.h, Contractor.cpp)\<close>

datatype State = RETRACTED | EXTENDING | EXTENDED | RETRACTING | ERROR

record Contractor =
  c_currentState :: State
  currentPosition :: int
  maxExtension :: int
  isInitialized :: bool
  c_name :: string
  speed :: int

definition Contractor_Contractor :: "string \<Rightarrow> int \<Rightarrow> Contractor" where
  "Contractor_Contractor contractorName maxExt =
     \<lparr>c_currentState = RETRACTED, currentPosition = 0, maxExtension = maxExt,
      isInitialized = False, c_name = contractorName, speed = 5\<rparr>"

text \<open>The homing of \<open>initialize()\<close> writes \<open>RETRACTING\<close> and then \<open>RETRACTED\<close>; the
  four assignments are kept in their order.\<close>

definition Contractor_initialize :: "Contractor \<Rightarrow> bool \<times> Contractor" where
  "Contractor_initialize c =
     (let c1 = c\<lparr>c_currentState := RETRACTING\<rparr>;
          c2 = c1\<lparr>currentPosition := 0\<rparr>;
          c3 = c2\<lparr>c_currentState := RETRACTED\<rparr>;
          c4 = c3\<lparr>isInitialized := True\<rparr>
      in (True, c4))"

definition Contractor_extend :: "Contractor \<Rightarrow> bool \<times> Contractor" where
  "Contractor_extend c =
     (if \<not> isInitialized c then (False, c)
      else if c_currentState c = EXTENDED then (True, c)
      else
        let c1 = c\<lparr>c_currentState := EXTENDING\<rparr>;
            c2 = c1\<lparr>currentPosition := 100\<rparr>;
            c3 = c2\<lparr>c_currentState := EXTENDED\<rparr>
        in (True, c3))"

definition Contractor_retract :: "Contractor \<Rightarrow> bool \<times> Contractor" where
  "Contractor_retract c =
     (if \<not> isInitialized c then (False, c)
      else if c_currentState c = RETRACTED then (True, c)
      else
        let c1 = c\<lparr>c_currentState := RETRACTING\<rparr>;
            c2 = c1\<lparr>currentPosition := 0\<rparr>;
            c3 = c2\<lparr>c_currentState := RETRACTED\<rparr>
        in (True, c3))"

definition Contractor_stop :: "Contractor \<Rightarrow> Contractor" where
  "Contractor_stop c =
     (if c_currentState c = EXTENDING \<or> c_currentState c = RETRACTING
      then c\<lparr>c_currentState := (if currentPosition c > 50 then EXTENDED else RETRACTED)\<rparr>
      else c)"

definition Contractor_getState :: "Contractor \<Rightarrow> State" where
  "Contractor_getState c = c_currentState c"

definition Contractor_getPosition :: "Contractor \<Rightarrow> int" where
  "Contractor_getPosition c = currentPosition c"

definition Contractor_setSpeed :: "int \<Rightarrow> Contractor \<Rightarrow> bool \<times> Contractor" where
  "Contractor_setSpeed newSpeed c =
     (if newSpeed < 1 \<or> newSpeed > 10 then (False, c)
      else (True, c\<lparr>speed := newSpeed\<rparr>))"

definition Contractor_isReady :: "Contractor \<Rightarrow> bool" where
  "Contractor_isReady c = (isInitialized c \<and> c_currentState c \<noteq> ERROR)"

text \<open>The calls a client can make on a \<open>Contractor\<close> that change it, and a run of
  them from left to right.\<close>

datatype ContractorCall = CInitialize | CExtend | CRetract | CStop | CSetSpeed int

fun Contractor_call :: "ContractorCall \<Rightarrow> Contractor \<Rightarrow> Contractor" where
  "Contractor_call CInitialize c = snd (Contractor_initialize c)"
| "Contractor_call CExtend c = snd (Contractor_extend c)"
| "Contractor_call CRetract c = snd (Contractor_retract c)"
| "Contractor_call CStop c = Contractor_stop c"
| "Contractor_call (CSetSpeed n) c = snd (Contractor_setSpeed n c)"

fun Contractor_calls :: "ContractorCall list \<Rightarrow> Contractor \<Rightarrow> Contractor" where
  "Contractor_calls [] c = c"
| "Contractor_calls (x # xs) c = Contractor_calls xs (Contractor_call x c)"

subsection \<open>\<open>SmartDoor\<close> (SmartDoor.h, SmartDoor.cpp)\<close>

datatype DoorState =
  CLOSED_LOCKED | CLOSED_UNLOCKED | OPENING | OPEN | CLOSING | ERROR_STATE

record SmartDoor =
  lockServo :: Servo
  doorActuator :: Contractor
  currentState :: DoorState
  isSystemReady :: bool
  doorId :: string
  openAttempts :: int

text \<open>The value a 32-bit two's-complement \<open>int\<close> holds for the integer \<open>x\<close>: \<open>x\<close>
  itself from \<open>INT_MIN = -2147483648\<close> to \<open>INT_MAX = 2147483647\<close>, wrapped around
  outside.\<close>

definition int_wrap :: "int \<Rightarrow> int" where
  "int_wrap x = (x + 2147483648) mod 4294967296 - 2147483648"

definition MAX_ATTEMPTS :: int where
  "MAX_ATTEMPTS = 3"

definition SmartDoor_SmartDoor :: "string \<Rightarrow> SmartDoor" where
  "SmartDoor_SmartDoor ident =
     \<lparr>lockServo = Servo_Servo (''LockServo_'' @ ident),
      doorActuator = Contractor_Contractor (''DoorActuator_'' @ ident) 250,
      currentState = CLOSED_LOCKED, isSystemReady = False, doorId = ident,
      openAttempts = 0\<rparr>"

definition SmartDoor_lockDoor :: "SmartDoor \<Rightarrow> bool \<times> SmartDoor" where
  "SmartDoor_lockDoor d =
     (let (ok, s) = Servo_setAngle 0 (lockServo d)
      in if \<not> ok then (False, d\<lparr>lockServo := s\<rparr>) else (True, d\<lparr>lockServo := s\<rparr>))"

definition SmartDoor_unlockDoor :: "SmartDoor \<Rightarrow> bool \<times> SmartDoor" where
  "SmartDoor_unlockDoor d =
     (let (ok, s) = Servo_setAngle 90 (lockServo d)
      in if \<not> ok then (False, d\<lparr>lockServo := s\<rparr>) else (True, d\<lparr>lockServo := s\<rparr>))"

definition SmartDoor_isSafeToOperate :: "SmartDoor \<Rightarrow> bool" where
  "SmartDoor_isSafeToOperate d =
     (if \<not> isSystemReady d then False
      else if currentState d = ERROR_STATE then False
      else if \<not> Servo_isCalibratedStatus (lockServo d) then False
      else if \<not> Contractor_isReady (doorActuator d) then False
      else True)"

definition SmartDoor_initialize :: "SmartDoor \<Rightarrow> bool \<times> SmartDoor" where
  "SmartDoor_initialize d =
     (let (ok1, s) = Servo_calibrate (lockServo d);
          d1 = d\<lparr>lockServo := s\<rparr>
      in if \<not> ok1 then (False, d1\<lparr>currentState := ERROR_STATE\<rparr>)
         else
           let (ok2, a) = Contractor_initialize (doorActuator d1);
               d2 = d1\<lparr>doorActuator := a\<rparr>
           in if \<not> ok2 then (False, d2\<lparr>currentState := ERROR_STATE\<rparr>)
              else
                let (ok3, d3) = SmartDoor_lockDoor d2
                in if \<not> ok3 then (False, d3\<lparr>currentState := ERROR_STATE\<rparr>)
                   else (True, d3\<lparr>isSystemReady := True, currentState := CLOSED_LOCKED,
                                  openAttempts := 0\<rparr>))"

definition SmartDoor_open :: "SmartDoor \<Rightarrow> bool \<times> SmartDoor" where
  "SmartDoor_open d =
     (if \<not> SmartDoor_isSafeToOperate d then
        let d1 = d\<lparr>openAttempts := int_wrap (openAttempts d + 1)\<rparr>
        in (False, if openAttempts d1 \<ge> MAX_ATTEMPTS
                   then d1\<lparr>currentState := ERROR_STATE\<rparr> else d1)
      else if currentState d = OPEN then (True, d)
      else
        let d1 = d\<lparr>currentState := OPENING\<rparr>;
            (ok1, d2) = SmartDoor_unlockDoor d1
        in if \<not> ok1 then (False, d2\<lparr>currentState := ERROR_STATE\<rparr>)
           else
             let d3 = d2\<lparr>currentState := CLOSED_UNLOCKED\<rparr>;
                 (ok2, a) = Contractor_extend (doorActuator d3);
                 d4 = d3\<lparr>doorActuator := a\<rparr>
             in if \<not> ok2 then (False, d4\<lparr>currentState := ERROR_STATE\<rparr>)
                else (True, d4\<lparr>currentState := OPEN, openAttempts := 0\<rparr>))"

definition SmartDoor_close :: "SmartDoor \<Rightarrow> bool \<times> SmartDoor" where
  "SmartDoor_close d =
     (if \<not> SmartDoor_isSafeToOperate d then (False, d)
      else if currentState d = CLOSED_LOCKED then (True, d)
      else
        let d1 = d\<lparr>currentState := CLOSING\<rparr>;
            (ok1, a) = Contractor_retract (doorActuator d1);
            d2 = d1\<lparr>doorActuator := a\<rparr>
        in if \<not> ok1 then (False, d2\<lparr>currentState := ERROR_STATE\<rparr>)
           else
             let d3 = d2\<lparr>currentState := CLOSED_UNLOCKED\<rparr>;
                 (ok2, d4) = SmartDoor_lockDoor d3
             in if \<not> ok2 then (False, d4\<lparr>currentState := ERROR_STATE\<rparr>)
                else (True, d4\<lparr>currentState := CLOSED_LOCKED\<rparr>))"

definition SmartDoor_emergencyStop :: "SmartDoor \<Rightarrow> SmartDoor" where
  "SmartDoor_emergencyStop d =
     (let d1 = d\<lparr>doorActuator := Contractor_stop (doorActuator d)\<rparr>
      in if Contractor_getPosition (doorActuator d1) > 50
         then d1\<lparr>currentState := OPEN\<rparr>
         else d1\<lparr>currentState := CLOSED_UNLOCKED\<rparr>)"

definition SmartDoor_getState :: "SmartDoor \<Rightarrow> DoorState" where
  "SmartDoor_getState d = currentState d"

definition SmartDoor_isReady :: "SmartDoor \<Rightarrow> bool" where
  "SmartDoor_isReady d = (isSystemReady d \<and> currentState d \<noteq> ERROR_STATE)"

definition SmartDoor_reset :: "SmartDoor \<Rightarrow> bool \<times> SmartDoor" where
  "SmartDoor_reset d =
     (let (closed, d1) =
            (if currentState d \<noteq> CLOSED_LOCKED then SmartDoor_close d else (True, d))
      in if \<not> closed then (False, d1)
         else SmartDoor_initialize (d1\<lparr>isSystemReady := False\<rparr>))"

text \<open>The public member functions of \<open>SmartDoor\<close> that are not \<open>const\<close>, and a run of
  them from left to right. The other public members (\<open>getState\<close>, \<open>getStateString\<close>,
  \<open>getDoorId\<close>, \<open>isReady\<close>, \<open>getStatusReport\<close>) leave the object as it is, and the two
  devices are private, so the states a client can bring a door into are those of
  \<open>SmartDoor_calls ops (SmartDoor_SmartDoor ident)\<close>.\<close>

datatype DoorCall = Initialize | Open | Close | EmergencyStop | Reset

fun SmartDoor_call :: "DoorCall \<Rightarrow> SmartDoor \<Rightarrow> SmartDoor" where
  "SmartDoor_call Initialize d = snd (SmartDoor_initialize d)"
| "SmartDoor_call Open d = snd (SmartDoor_open d)"
| "SmartDoor_call Close d = snd (SmartDoor_close d)"
| "SmartDoor_call EmergencyStop d = SmartDoor_emergencyStop d"
| "SmartDoor_call Reset d = snd (SmartDoor_reset d)"

fun SmartDoor_calls :: "DoorCall list \<Rightarrow> SmartDoor \<Rightarrow> SmartDoor" where
  "SmartDoor_calls [] d = d"
| "SmartDoor_calls (x # xs) d = SmartDoor_calls xs (SmartDoor_call x d)"

subsection \<open>Invariants of the states a client can reach\<close>

text \<open>A \<open>Contractor\<close> between two calls is at one of its two end positions.\<close>

definition Contractor_inv :: "Contractor \<Rightarrow> bool" where
  "Contractor_inv c =
     (c_currentState c = RETRACTED \<and> currentPosition c = 0
      \<or> c_currentState c = EXTENDED \<and> currentPosition c = 100)"

text \<open>A \<open>SmartDoor\<close> between two calls: the servo limits are those of the constructor;
  once \<open>isSystemReady\<close> is set both devices are set up, \<open>openAttempts\<close> is 0 and the door
  is closed with the servo at 0 or open with the servo at 90; before that both devices are
  as constructed.\<close>

definition door_inv :: "SmartDoor \<Rightarrow> bool" where
  "door_inv d =
     (minAngle (lockServo d) = 0 \<and> maxAngle (lockServo d) = 180 \<and>
      (if isSystemReady d then
         isCalibrated (lockServo d) \<and> isInitialized (doorActuator d) \<and> openAttempts d = 0 \<and>
         ((currentState d = CLOSED_LOCKED \<or> currentState d = CLOSED_UNLOCKED) \<and>
            currentAngle (lockServo d) = 0 \<and> currentPosition (doorActuator d) = 0 \<and>
            c_currentState (doorActuator d) = RETRACTED
          \<or> currentState d = OPEN \<and>
            currentAngle (lockServo d) = 90 \<and> currentPosition (doorActuator d) = 100 \<and>
            c_currentState (doorActuator d) = EXTENDED)
       else
         \<not> isCalibrated (lockServo d) \<and> \<not> isInitialized (doorActuator d) \<and>
         (currentState d = CLOSED_LOCKED \<or> currentState d = CLOSED_UNLOCKED \<or>
          currentState d = ERROR_STATE) \<and>
         currentAngle (lockServo d) = 90 \<and> currentPosition (doorActuator d) = 0 \<and>
         c_currentState (doorActuator d) = RETRACTED))"

section \<open>Properties\<close>

lemmas Servo_defs = Servo_Servo_def Servo_calibrate_def Servo_setAngle_def Servo_getAngle_def
  Servo_isCalibratedStatus_def Servo_reset_def

lemmas Contractor_defs = Contractor_Contractor_def Contractor_initialize_def
  Contractor_extend_def Contractor_retract_def Contractor_stop_def Contractor_getState_def
  Contractor_getPosition_def Contractor_setSpeed_def Contractor_isReady_def

lemmas SmartDoor_defs = SmartDoor_SmartDoor_def SmartDoor_lockDoor_def SmartDoor_unlockDoor_def
  SmartDoor_isSafeToOperate_def SmartDoor_initialize_def SmartDoor_open_def SmartDoor_close_def
  SmartDoor_emergencyStop_def SmartDoor_getState_def SmartDoor_isReady_def SmartDoor_reset_def
  MAX_ATTEMPTS_def int_wrap_def

subsection \<open>The actuator invariant\<close>

lemma Contractor_inv_new: "Contractor_inv (Contractor_Contractor n m)"
  by (simp add: Contractor_inv_def Contractor_Contractor_def)

lemma Contractor_inv_call: "Contractor_inv c \<Longrightarrow> Contractor_inv (Contractor_call x c)"
  by (cases x) (auto simp: Contractor_inv_def Contractor_defs Let_def)

lemma Contractor_inv_calls: "Contractor_inv c \<Longrightarrow> Contractor_inv (Contractor_calls xs c)"
  by (induction xs arbitrary: c) (simp_all add: Contractor_inv_call)

subsection \<open>The door invariant\<close>

lemma door_inv_new: "door_inv (SmartDoor_SmartDoor ident)"
  by (simp add: door_inv_def SmartDoor_SmartDoor_def Servo_Servo_def Contractor_Contractor_def)

lemma door_inv_initialize: "door_inv d \<Longrightarrow> door_inv (snd (SmartDoor_initialize d))"
  by (simp add: door_inv_def SmartDoor_initialize_def SmartDoor_lockDoor_def Servo_calibrate_def
      Servo_setAngle_def Contractor_initialize_def Let_def)

lemma door_inv_open: "door_inv d \<Longrightarrow> door_inv (snd (SmartDoor_open d))"
  by (auto simp: door_inv_def SmartDoor_open_def SmartDoor_unlockDoor_def
      SmartDoor_isSafeToOperate_def Servo_isCalibratedStatus_def Contractor_isReady_def
      Servo_setAngle_def Contractor_extend_def MAX_ATTEMPTS_def Let_def split: if_splits)

lemma door_inv_close: "door_inv d \<Longrightarrow> door_inv (snd (SmartDoor_close d))"
  by (auto simp: door_inv_def SmartDoor_close_def SmartDoor_lockDoor_def
      SmartDoor_isSafeToOperate_def Servo_isCalibratedStatus_def Contractor_isReady_def
      Servo_setAngle_def Contractor_retract_def Let_def split: if_splits)

lemma door_inv_emergencyStop: "door_inv d \<Longrightarrow> door_inv (SmartDoor_emergencyStop d)"
  by (auto simp: door_inv_def SmartDoor_emergencyStop_def Contractor_stop_def
      Contractor_getPosition_def Let_def split: if_splits)

text \<open>\<open>reset()\<close> without the pair it threads through: it stops after a failed \<open>close()\<close>
  and otherwise clears the flag and initializes.\<close>

lemma SmartDoor_reset_unfold:
  "SmartDoor_reset d =
     (if currentState d \<noteq> CLOSED_LOCKED \<and> \<not> fst (SmartDoor_close d)
      then (False, snd (SmartDoor_close d))
      else SmartDoor_initialize
             ((if currentState d \<noteq> CLOSED_LOCKED then snd (SmartDoor_close d) else d)
                \<lparr>isSystemReady := False\<rparr>))"
  by (cases "SmartDoor_close d") (simp add: SmartDoor_reset_def)

lemma door_inv_reinitialize:
  "door_inv d \<Longrightarrow> door_inv (snd (SmartDoor_initialize (d\<lparr>isSystemReady := False\<rparr>)))"
  by (simp add: door_inv_def SmartDoor_initialize_def SmartDoor_lockDoor_def Servo_calibrate_def
      Servo_setAngle_def Contractor_initialize_def Let_def)

lemma door_inv_reset: "door_inv d \<Longrightarrow> door_inv (snd (SmartDoor_reset d))"
  by (simp add: SmartDoor_reset_unfold door_inv_close door_inv_reinitialize)

lemma door_inv_call: "door_inv d \<Longrightarrow> door_inv (SmartDoor_call x d)"
  by (cases x)
     (simp_all add: door_inv_initialize door_inv_open door_inv_close door_inv_emergencyStop
        door_inv_reset)

lemma door_inv_calls: "door_inv d \<Longrightarrow> door_inv (SmartDoor_calls xs d)"
  by (induction xs arbitrary: d) (simp_all add: door_inv_call)

lemma door_inv_reachable: "door_inv (SmartDoor_calls xs (SmartDoor_SmartDoor ident))"
  by (rule door_inv_calls [OF door_inv_new])

lemma door_inv_safe_attempts:
  "door_inv d \<Longrightarrow> SmartDoor_isSafeToOperate d \<Longrightarrow> openAttempts d = 0"
  by (simp add: door_inv_def SmartDoor_isSafeToOperate_def split: if_splits)

subsection \<open>What each call does to \<open>openAttempts\<close>\<close>

lemma int_wrap_id: "- 2147483648 \<le> x \<Longrightarrow> x \<le> 2147483647 \<Longrightarrow> int_wrap x = x"
  by (simp add: int_wrap_def)

lemma open_unsafe:
  "\<not> SmartDoor_isSafeToOperate d \<Longrightarrow>
     SmartDoor_open d =
       (False, d\<lparr>openAttempts := int_wrap (openAttempts d + 1),
                  currentState := (if int_wrap (openAttempts d + 1) \<ge> 3 then ERROR_STATE
                                   else currentState d)\<rparr>)"
  by (simp add: SmartDoor_open_def MAX_ATTEMPTS_def Let_def)

lemma open_unsafe_stays_unsafe:
  "\<not> SmartDoor_isSafeToOperate d \<Longrightarrow> \<not> SmartDoor_isSafeToOperate (snd (SmartDoor_open d))"
  by (auto simp: SmartDoor_open_def SmartDoor_isSafeToOperate_def MAX_ATTEMPTS_def Let_def
      split: if_splits)

lemma open_unsafe_keeps_error:
  "\<not> SmartDoor_isSafeToOperate d \<Longrightarrow> currentState d = ERROR_STATE \<Longrightarrow>
     currentState (snd (SmartDoor_open d)) = ERROR_STATE"
  by (simp add: open_unsafe)

lemma open_unsafe_thrice:
  assumes unsafe: "\<not> SmartDoor_isSafeToOperate d"
    and lo: "0 \<le> openAttempts d" and hi: "openAttempts d < 2147483647"
  shows "currentState (SmartDoor_calls [Open, Open, Open] d) = ERROR_STATE"
proof -
  let ?d1 = "snd (SmartDoor_open d)"
  let ?d2 = "snd (SmartDoor_open ?d1)"
  let ?d3 = "snd (SmartDoor_open ?d2)"
  have u1: "\<not> SmartDoor_isSafeToOperate ?d1"
    using unsafe by (rule open_unsafe_stays_unsafe)
  have u2: "\<not> SmartDoor_isSafeToOperate ?d2"
    using u1 by (rule open_unsafe_stays_unsafe)
  have c1: "openAttempts ?d1 = openAttempts d + 1"
    using unsafe lo hi by (simp add: open_unsafe int_wrap_id)
  have "currentState ?d3 = ERROR_STATE"
  proof (cases "openAttempts d \<le> 1")
    case True
    then have c2: "openAttempts ?d2 = openAttempts d + 2"
      using u1 c1 lo by (simp add: open_unsafe int_wrap_id)
    with True lo u2 show ?thesis
      by (simp add: open_unsafe int_wrap_id)
  next
    case False
    then have "currentState ?d1 = ERROR_STATE"
      using unsafe hi by (simp add: open_unsafe int_wrap_id)
    then have "currentState ?d2 = ERROR_STATE"
      using u1 by (simp add: open_unsafe_keeps_error)
    then show ?thesis
      using u2 by (simp add: open_unsafe_keeps_error)
  qed
  then show ?thesis by simp
qed

lemma open_true_safe: "fst (SmartDoor_open d) \<Longrightarrow> SmartDoor_isSafeToOperate d"
  by (rule ccontr) (simp add: open_unsafe)

lemma open_safe_attempts:
  "SmartDoor_isSafeToOperate d \<Longrightarrow>
     openAttempts (snd (SmartDoor_open d)) = openAttempts d \<or>
     openAttempts (snd (SmartDoor_open d)) = 0"
  by (simp add: SmartDoor_open_def SmartDoor_unlockDoor_def Servo_setAngle_def
      Contractor_extend_def Let_def)

lemma open_safe_resets:
  "SmartDoor_isSafeToOperate d \<Longrightarrow> currentState d \<noteq> OPEN \<Longrightarrow>
   minAngle (lockServo d) = 0 \<Longrightarrow> maxAngle (lockServo d) = 180 \<Longrightarrow>
     fst (SmartDoor_open d) \<and> openAttempts (snd (SmartDoor_open d)) = 0"
  by (simp add: SmartDoor_open_def SmartDoor_unlockDoor_def SmartDoor_isSafeToOperate_def
      Servo_setAngle_def Contractor_extend_def Contractor_isReady_def Let_def
      split: if_splits)

lemma open_already_open:
  "SmartDoor_isSafeToOperate d \<Longrightarrow> currentState d = OPEN \<Longrightarrow> SmartDoor_open d = (True, d)"
  by (simp add: SmartDoor_open_def)

lemma close_attempts: "openAttempts (snd (SmartDoor_close d)) = openAttempts d"
  by (simp add: SmartDoor_close_def SmartDoor_lockDoor_def Servo_setAngle_def
      Contractor_retract_def Let_def)

lemma initialize_attempts:
  "openAttempts (snd (SmartDoor_initialize d)) = openAttempts d \<or>
   openAttempts (snd (SmartDoor_initialize d)) = 0"
  by (simp add: SmartDoor_initialize_def SmartDoor_lockDoor_def Servo_setAngle_def
      Servo_calibrate_def Contractor_initialize_def Let_def)

lemma reset_attempts:
  "openAttempts (snd (SmartDoor_reset d)) = openAttempts d \<or>
   openAttempts (snd (SmartDoor_reset d)) = 0"
  using initialize_attempts [of "snd (SmartDoor_close d) \<lparr>isSystemReady := False\<rparr>"]
    initialize_attempts [of "d \<lparr>isSystemReady := False\<rparr>"]
  by (simp add: SmartDoor_reset_unfold close_attempts)

lemma call_attempts:
  "(x = Open \<longrightarrow> SmartDoor_isSafeToOperate d) \<Longrightarrow>
     openAttempts (SmartDoor_call x d) = openAttempts d \<or> openAttempts (SmartDoor_call x d) = 0"
  by (cases x)
     (simp_all add: open_safe_attempts close_attempts initialize_attempts reset_attempts
        SmartDoor_emergencyStop_def Let_def)


subsection \<open>A door that is never initialized\<close>

lemma SmartDoor_calls_append:
  "SmartDoor_calls (xs @ ys) d = SmartDoor_calls ys (SmartDoor_calls xs d)"
  by (induction xs arbitrary: d) simp_all

text \<open>\<open>n\<close> calls of \<open>open()\<close> on the door as constructed all fail and count up to
  \<open>n\<close>, as long as \<open>n\<close> is at most \<open>INT_MAX\<close>.\<close>

lemma failed_opens:
  "n \<le> 2147483647 \<Longrightarrow>
     SmartDoor_calls (replicate n Open) (SmartDoor_SmartDoor ident) =
       SmartDoor_SmartDoor ident
         \<lparr>openAttempts := int n,
          currentState := (if 3 \<le> n then ERROR_STATE else CLOSED_LOCKED)\<rparr>"
proof (induction n)
  case 0
  show ?case by (simp add: SmartDoor_SmartDoor_def)
next
  case (Suc n)
  let ?d = "SmartDoor_SmartDoor ident
         \<lparr>openAttempts := int n,
          currentState := (if 3 \<le> n then ERROR_STATE else CLOSED_LOCKED)\<rparr>"
  have before: "SmartDoor_calls (replicate n Open) (SmartDoor_SmartDoor ident) = ?d"
    using Suc by simp
  have unsafe: "\<not> SmartDoor_isSafeToOperate ?d"
    by (simp add: SmartDoor_isSafeToOperate_def SmartDoor_SmartDoor_def)
  have wrap: "int_wrap (int n + 1) = int n + 1"
    using Suc.prems by (simp add: int_wrap_id)
  have "replicate (Suc n) Open = replicate n Open @ [Open]"
    by (simp add: replicate_append_same)
  then have "SmartDoor_calls (replicate (Suc n) Open) (SmartDoor_SmartDoor ident) =
      snd (SmartDoor_open (SmartDoor_calls (replicate n Open) (SmartDoor_SmartDoor ident)))"
    by (simp only: SmartDoor_calls_append SmartDoor_calls.simps SmartDoor_call.simps)
  also have "\<dots> = snd (SmartDoor_open ?d)"
    by (simp only: before)
  also have "\<dots> = SmartDoor_SmartDoor ident
         \<lparr>openAttempts := int (Suc n),
          currentState := (if 3 \<le> Suc n then ERROR_STATE else CLOSED_LOCKED)\<rparr>"
    using wrap by (simp add: open_unsafe [OF unsafe])
  finally show ?case .
qed

text \<open>In particular after \<open>INT_MAX\<close> calls.\<close>

lemma failed_opens_INT_MAX:
  "SmartDoor_calls (replicate 2147483647 Open) (SmartDoor_SmartDoor ident) =
     SmartDoor_SmartDoor ident
       \<lparr>openAttempts := 2147483647, currentState := ERROR_STATE\<rparr>"
  using failed_opens [of 2147483647 ident] by simp

section \<open>The claims\<close>

subsection \<open>C1: the failed-open counter\<close>

text \<open>
  Claim C1 as stated, for every door: a call of \<open>open()\<close> that fails the
  \<open>isSafeToOperate()\<close> check increments \<open>openAttempts\<close>, and three consecutive such calls
  leave the door in \<open>ERROR_STATE\<close>. \<open>openAttempts\<close> is a C++ \<open>int\<close> and nothing caps it,
  so this fails on the door \<open>D1\<close> that is never initialized, after 2147483647 failed calls
  of \<open>open()\<close> and an \<open>emergencyStop()\<close>: the counter is at \<open>INT_MAX\<close> and the state is
  \<open>CLOSED_UNLOCKED\<close>; the door is unsafe; the next \<open>open()\<close> takes the counter to
  \<open>INT_MIN\<close> instead of one more, and after three more failed calls the state is still
  \<open>CLOSED_UNLOCKED\<close>.
\<close>

theorem open_attempts_overflow_counterexample:
  "\<not> SmartDoor_isSafeToOperate
      (SmartDoor_calls (replicate 2147483647 Open @ [EmergencyStop])
         (SmartDoor_SmartDoor ''D1''))
   \<and> openAttempts
      (SmartDoor_calls (replicate 2147483647 Open @ [EmergencyStop])
         (SmartDoor_SmartDoor ''D1'')) = 2147483647
   \<and> openAttempts
      (SmartDoor_calls (replicate 2147483647 Open @ [EmergencyStop, Open])
         (SmartDoor_SmartDoor ''D1'')) = - 2147483648
   \<and> \<not> SmartDoor_isSafeToOperate
      (SmartDoor_calls (replicate 2147483647 Open @ [EmergencyStop, Open])
         (SmartDoor_SmartDoor ''D1''))
   \<and> \<not> SmartDoor_isSafeToOperate
      (SmartDoor_calls (replicate 2147483647 Open @ [EmergencyStop, Open, Open])
         (SmartDoor_SmartDoor ''D1''))
   \<and> currentState
      (SmartDoor_calls (replicate 2147483647 Open @ [EmergencyStop, Open, Open, Open])
         (SmartDoor_SmartDoor ''D1'')) = CLOSED_UNLOCKED
   \<and> currentState
      (SmartDoor_calls (replicate 2147483647 Open @ [EmergencyStop, Open, Open, Open])
         (SmartDoor_SmartDoor ''D1'')) \<noteq> ERROR_STATE"
  by (simp only: SmartDoor_calls_append failed_opens_INT_MAX)
     (simp add: SmartDoor_defs Servo_defs Contractor_defs Let_def)

text \<open>
  Claim C1, amended: the claim for counters that the increment does not take out of the
  range of \<open>int\<close>.

  For every door record \<open>d\<close>: a call of \<open>open()\<close> that fails the \<open>isSafeToOperate()\<close>
  check with \<open>openAttempts\<close> below \<open>INT_MAX = 2147483647\<close> returns \<open>false\<close>, adds one to
  \<open>openAttempts\<close> and sets \<open>ERROR_STATE\<close> as soon as the new count is at least
  \<open>MAX_ATTEMPTS = 3\<close>, leaving the state alone below that. A call \<open>x\<close> other than a
  failing \<open>open()\<close> leaves \<open>openAttempts\<close> as it is or sets it to 0. An \<open>open()\<close> on a
  safe door that is not yet \<open>OPEN\<close> (servo limits 0 and 180) returns \<open>true\<close> and sets
  \<open>openAttempts\<close> to 0; on a safe door that is already \<open>OPEN\<close> it returns \<open>true\<close> and
  changes nothing.

  For every door \<open>r\<close> a client can reach from the constructor: if \<open>r\<close> is unsafe and
  \<open>0 \<le> openAttempts < INT_MAX\<close>, it stays unsafe over \<open>open()\<close> calls and the third
  consecutive one leaves it in \<open>ERROR_STATE\<close>; with \<open>0 \<le> openAttempts < INT_MAX\<close> a call
  \<open>y\<close> raises the counter exactly when it is a failing \<open>open()\<close>; and after an
  \<open>open()\<close> that returns \<open>true\<close> the counter is 0 (the already-\<open>OPEN\<close> return is taken
  only with the counter at 0).
\<close>

theorem open_attempts_escalation:
  "(\<not> SmartDoor_isSafeToOperate d
      \<and> - 2147483648 \<le> openAttempts d \<and> openAttempts d < 2147483647 \<longrightarrow>
      \<not> fst (SmartDoor_open d)
      \<and> openAttempts (snd (SmartDoor_open d)) = openAttempts d + 1
      \<and> currentState (snd (SmartDoor_open d)) =
          (if openAttempts d + 1 \<ge> 3 then ERROR_STATE else currentState d))
   \<and> ((x = Open \<longrightarrow> SmartDoor_isSafeToOperate d) \<longrightarrow>
        openAttempts (SmartDoor_call x d) = openAttempts d \<or>
        openAttempts (SmartDoor_call x d) = 0)
   \<and> (SmartDoor_isSafeToOperate d \<and> currentState d \<noteq> OPEN
        \<and> minAngle (lockServo d) = 0 \<and> maxAngle (lockServo d) = 180 \<longrightarrow>
        fst (SmartDoor_open d) \<and> openAttempts (snd (SmartDoor_open d)) = 0)
   \<and> (SmartDoor_isSafeToOperate d \<and> currentState d = OPEN \<longrightarrow>
        SmartDoor_open d = (True, d))
   \<and> (let r = SmartDoor_calls xs (SmartDoor_SmartDoor ident) in
        (\<not> SmartDoor_isSafeToOperate r
           \<and> 0 \<le> openAttempts r \<and> openAttempts r < 2147483647 \<longrightarrow>
           \<not> SmartDoor_isSafeToOperate (SmartDoor_calls [Open] r)
           \<and> \<not> SmartDoor_isSafeToOperate (SmartDoor_calls [Open, Open] r)
           \<and> currentState (SmartDoor_calls [Open, Open, Open] r) = ERROR_STATE)
        \<and> (0 \<le> openAttempts r \<and> openAttempts r < 2147483647 \<longrightarrow>
             (openAttempts r < openAttempts (SmartDoor_call y r) \<longleftrightarrow>
                y = Open \<and> \<not> SmartDoor_isSafeToOperate r))
        \<and> (fst (SmartDoor_open r) \<longrightarrow> openAttempts (snd (SmartDoor_open r)) = 0))"
proof -
  define r where "r = SmartDoor_calls xs (SmartDoor_SmartDoor ident)"
  have inv: "door_inv r"
    unfolding r_def by (rule door_inv_reachable)
  have failing: "\<not> SmartDoor_isSafeToOperate d
      \<and> - 2147483648 \<le> openAttempts d \<and> openAttempts d < 2147483647 \<longrightarrow>
      \<not> fst (SmartDoor_open d)
      \<and> openAttempts (snd (SmartDoor_open d)) = openAttempts d + 1
      \<and> currentState (snd (SmartDoor_open d)) =
          (if openAttempts d + 1 \<ge> 3 then ERROR_STATE else currentState d)"
    by (simp add: open_unsafe int_wrap_id)
  have others: "(x = Open \<longrightarrow> SmartDoor_isSafeToOperate d) \<longrightarrow>
        openAttempts (SmartDoor_call x d) = openAttempts d \<or>
        openAttempts (SmartDoor_call x d) = 0"
    using call_attempts [of x d] by blast
  have resets: "SmartDoor_isSafeToOperate d \<and> currentState d \<noteq> OPEN
        \<and> minAngle (lockServo d) = 0 \<and> maxAngle (lockServo d) = 180 \<longrightarrow>
        fst (SmartDoor_open d) \<and> openAttempts (snd (SmartDoor_open d)) = 0"
    using open_safe_resets [of d] by blast
  have shortcut: "SmartDoor_isSafeToOperate d \<and> currentState d = OPEN \<longrightarrow>
        SmartDoor_open d = (True, d)"
    using open_already_open [of d] by blast
  have thrice: "\<not> SmartDoor_isSafeToOperate r
           \<and> 0 \<le> openAttempts r \<and> openAttempts r < 2147483647 \<longrightarrow>
           \<not> SmartDoor_isSafeToOperate (SmartDoor_calls [Open] r)
           \<and> \<not> SmartDoor_isSafeToOperate (SmartDoor_calls [Open, Open] r)
           \<and> currentState (SmartDoor_calls [Open, Open, Open] r) = ERROR_STATE"
    using open_unsafe_thrice [of r] open_unsafe_stays_unsafe
    by simp
  have only: "0 \<le> openAttempts r \<and> openAttempts r < 2147483647 \<longrightarrow>
             (openAttempts r < openAttempts (SmartDoor_call y r) \<longleftrightarrow>
                y = Open \<and> \<not> SmartDoor_isSafeToOperate r)"
  proof
    assume range: "0 \<le> openAttempts r \<and> openAttempts r < 2147483647"
    show "openAttempts r < openAttempts (SmartDoor_call y r) \<longleftrightarrow>
                y = Open \<and> \<not> SmartDoor_isSafeToOperate r"
    proof (cases "y = Open \<and> \<not> SmartDoor_isSafeToOperate r")
      case True
      with range show ?thesis by (simp add: open_unsafe int_wrap_id)
    next
      case False
      then have "openAttempts (SmartDoor_call y r) = openAttempts r \<or>
          openAttempts (SmartDoor_call y r) = 0"
        using call_attempts [of y r] by blast
      with range False show ?thesis by auto
    qed
  qed
  have success: "fst (SmartDoor_open r) \<longrightarrow> openAttempts (snd (SmartDoor_open r)) = 0"
  proof
    assume "fst (SmartDoor_open r)"
    then have safe: "SmartDoor_isSafeToOperate r" by (rule open_true_safe)
    then have "openAttempts r = 0" using inv by (simp add: door_inv_safe_attempts)
    with open_safe_attempts [OF safe] show "openAttempts (snd (SmartDoor_open r)) = 0"
      by auto
  qed
  from failing others resets shortcut thrice only success show ?thesis
    unfolding Let_def r_def by blast
qed

text \<open>On the door \<open>D1\<close>: never initialized, the first failed \<open>open()\<close> counts 1, the
  second leaves \<open>CLOSED_LOCKED\<close> and the third gives \<open>ERROR_STATE\<close>. After
  \<open>initialize()\<close>, \<open>open()\<close> returns \<open>true\<close> with the counter at 0, also when the
  counter of the initialized door is put to 2 by hand; and a second \<open>open()\<close> changes
  nothing.\<close>

theorem open_attempts_escalation_witness:
  "\<not> SmartDoor_isSafeToOperate (SmartDoor_SmartDoor ''D1'')
   \<and> openAttempts (snd (SmartDoor_open (SmartDoor_SmartDoor ''D1''))) = 1
   \<and> currentState (SmartDoor_calls [Open, Open] (SmartDoor_SmartDoor ''D1'')) = CLOSED_LOCKED
   \<and> currentState (SmartDoor_calls [Open, Open, Open] (SmartDoor_SmartDoor ''D1''))
       = ERROR_STATE
   \<and> SmartDoor_isSafeToOperate
       (SmartDoor_calls [Initialize] (SmartDoor_SmartDoor ''D1'') \<lparr>openAttempts := 2\<rparr>)
   \<and> fst (SmartDoor_open
       (SmartDoor_calls [Initialize] (SmartDoor_SmartDoor ''D1'') \<lparr>openAttempts := 2\<rparr>))
   \<and> openAttempts (snd (SmartDoor_open
       (SmartDoor_calls [Initialize] (SmartDoor_SmartDoor ''D1'') \<lparr>openAttempts := 2\<rparr>))) = 0
   \<and> SmartDoor_open (SmartDoor_calls [Initialize, Open] (SmartDoor_SmartDoor ''D1''))
       = (True, SmartDoor_calls [Initialize, Open] (SmartDoor_SmartDoor ''D1''))
   \<and> fst (SmartDoor_open (SmartDoor_calls [Initialize] (SmartDoor_SmartDoor ''D1'')))
   \<and> openAttempts
       (snd (SmartDoor_open (SmartDoor_calls [Initialize] (SmartDoor_SmartDoor ''D1'')))) = 0"
  using open_attempts_escalation
          [where d = "SmartDoor_SmartDoor ''D1''" and x = Close and xs = "[]"
             and ident = "''D1''" and y = Open]
        open_attempts_escalation
          [where d = "SmartDoor_calls [Initialize] (SmartDoor_SmartDoor ''D1'')
                        \<lparr>openAttempts := 2\<rparr>"
             and x = Open and xs = "[Initialize]" and ident = "''D1''" and y = Open]
        open_attempts_escalation
          [where d = "SmartDoor_calls [Initialize, Open] (SmartDoor_SmartDoor ''D1'')"
             and x = Open and xs = "[Initialize]" and ident = "''D1''" and y = Open]
  by (simp add: SmartDoor_defs Servo_defs Contractor_defs Let_def)

subsection \<open>C2: door state against servo angle and actuator position\<close>

text \<open>
  Claim C2 as stated, for every door a client can reach from the constructor:
  \<open>CLOSED_LOCKED\<close> implies servo angle 0 and actuator position 0, and \<open>OPEN\<close> implies
  servo angle 90 and actuator position 100. It fails on the door as constructed, before any
  call: the \<open>SmartDoor\<close> constructor sets \<open>CLOSED_LOCKED\<close> and the \<open>Servo\<close> constructor
  sets the angle to 90.
\<close>

theorem closed_locked_as_constructed_counterexample:
  "currentState (SmartDoor_calls [] (SmartDoor_SmartDoor ''D1'')) = CLOSED_LOCKED
   \<and> Servo_getAngle (lockServo (SmartDoor_calls [] (SmartDoor_SmartDoor ''D1''))) \<noteq> 0"
  by (simp add: SmartDoor_SmartDoor_def Servo_Servo_def Servo_getAngle_def)

text \<open>
  Claim C2, amended. For every door \<open>r\<close> a client can reach from the constructor:
  \<open>CLOSED_LOCKED\<close> with \<open>isSystemReady\<close> set (that is, after an \<open>initialize()\<close> that
  returned \<open>true\<close>) implies servo angle 0 and actuator position 0; \<open>CLOSED_LOCKED\<close>
  alone implies actuator position 0; \<open>OPEN\<close> implies servo angle 90 and actuator
  position 100.
\<close>

theorem door_state_matches_devices:
  "let r = SmartDoor_calls xs (SmartDoor_SmartDoor ident) in
     (currentState r = CLOSED_LOCKED \<and> isSystemReady r \<longrightarrow>
        Servo_getAngle (lockServo r) = 0 \<and> Contractor_getPosition (doorActuator r) = 0)
     \<and> (currentState r = CLOSED_LOCKED \<longrightarrow> Contractor_getPosition (doorActuator r) = 0)
     \<and> (currentState r = OPEN \<longrightarrow>
        Servo_getAngle (lockServo r) = 90 \<and> Contractor_getPosition (doorActuator r) = 100)"
  using door_inv_reachable [of xs ident]
  by (auto simp: Let_def door_inv_def Servo_getAngle_def Contractor_getPosition_def
      split: if_splits)

text \<open>On the door \<open>D1\<close>: after \<open>initialize()\<close> it is \<open>CLOSED_LOCKED\<close> and ready with
  angle 0 and position 0; after \<open>initialize()\<close>, \<open>open()\<close> it is \<open>OPEN\<close> with angle 90
  and position 100.\<close>

theorem door_state_matches_devices_witness:
  "currentState (SmartDoor_calls [Initialize] (SmartDoor_SmartDoor ''D1'')) = CLOSED_LOCKED
   \<and> isSystemReady (SmartDoor_calls [Initialize] (SmartDoor_SmartDoor ''D1''))
   \<and> Servo_getAngle (lockServo (SmartDoor_calls [Initialize] (SmartDoor_SmartDoor ''D1''))) = 0
   \<and> Contractor_getPosition
       (doorActuator (SmartDoor_calls [Initialize] (SmartDoor_SmartDoor ''D1''))) = 0
   \<and> currentState (SmartDoor_calls [Initialize, Open] (SmartDoor_SmartDoor ''D1'')) = OPEN
   \<and> Servo_getAngle
       (lockServo (SmartDoor_calls [Initialize, Open] (SmartDoor_SmartDoor ''D1''))) = 90
   \<and> Contractor_getPosition
       (doorActuator (SmartDoor_calls [Initialize, Open] (SmartDoor_SmartDoor ''D1''))) = 100"
  using door_state_matches_devices [of "[Initialize]" "''D1''"]
        door_state_matches_devices [of "[Initialize, Open]" "''D1''"]
  by (simp add: SmartDoor_defs Servo_defs Contractor_defs Let_def)

subsection \<open>C3: a safe door opens and closes\<close>

text \<open>
  Claim C3. \<open>extend()\<close> and \<open>retract()\<close> fail exactly on an actuator that is not
  initialized, and \<open>setAngle(0)\<close> and \<open>setAngle(90)\<close> succeed on a servo with the limits
  0 and 180 of the constructor. So for every door record \<open>d\<close> with these servo limits on
  which \<open>isSafeToOperate()\<close> holds, \<open>open()\<close> and \<open>close()\<close> return \<open>true\<close> and do not
  end in \<open>ERROR_STATE\<close> (they end in \<open>OPEN\<close> and \<open>CLOSED_LOCKED\<close>); and the same for every
  door \<open>r\<close> a client can reach from the constructor, where the limits always are 0 and
  180.
\<close>

theorem safe_open_close_succeed:
  "fst (Contractor_extend c) = isInitialized c
   \<and> fst (Contractor_retract c) = isInitialized c
   \<and> (minAngle s = 0 \<and> maxAngle s = 180 \<longrightarrow>
        fst (Servo_setAngle 0 s) \<and> fst (Servo_setAngle 90 s))
   \<and> (minAngle (lockServo d) = 0 \<and> maxAngle (lockServo d) = 180
        \<and> SmartDoor_isSafeToOperate d \<longrightarrow>
      fst (SmartDoor_open d) \<and> currentState (snd (SmartDoor_open d)) \<noteq> ERROR_STATE
      \<and> currentState (snd (SmartDoor_open d)) = OPEN
      \<and> fst (SmartDoor_close d) \<and> currentState (snd (SmartDoor_close d)) \<noteq> ERROR_STATE
      \<and> currentState (snd (SmartDoor_close d)) = CLOSED_LOCKED)
   \<and> (let r = SmartDoor_calls xs (SmartDoor_SmartDoor ident) in
        SmartDoor_isSafeToOperate r \<longrightarrow>
          fst (SmartDoor_open r) \<and> currentState (snd (SmartDoor_open r)) \<noteq> ERROR_STATE
          \<and> fst (SmartDoor_close r) \<and> currentState (snd (SmartDoor_close r)) \<noteq> ERROR_STATE)"
proof -
  have devices: "fst (Contractor_extend c) = isInitialized c
      \<and> fst (Contractor_retract c) = isInitialized c
      \<and> (minAngle s = 0 \<and> maxAngle s = 180 \<longrightarrow>
           fst (Servo_setAngle 0 s) \<and> fst (Servo_setAngle 90 s))"
    by (simp add: Contractor_extend_def Contractor_retract_def Servo_setAngle_def Let_def)
  have gen: "fst (SmartDoor_open d) \<and> currentState (snd (SmartDoor_open d)) \<noteq> ERROR_STATE
      \<and> currentState (snd (SmartDoor_open d)) = OPEN
      \<and> fst (SmartDoor_close d) \<and> currentState (snd (SmartDoor_close d)) \<noteq> ERROR_STATE
      \<and> currentState (snd (SmartDoor_close d)) = CLOSED_LOCKED"
    if "minAngle (lockServo d) = 0" "maxAngle (lockServo d) = 180" "SmartDoor_isSafeToOperate d"
    for d
    using that
    by (simp add: SmartDoor_open_def SmartDoor_close_def SmartDoor_unlockDoor_def
        SmartDoor_lockDoor_def SmartDoor_isSafeToOperate_def Servo_setAngle_def
        Contractor_extend_def Contractor_retract_def Contractor_isReady_def Let_def
        split: if_splits)
  have lim: "minAngle (lockServo (SmartDoor_calls xs (SmartDoor_SmartDoor ident))) = 0
     \<and> maxAngle (lockServo (SmartDoor_calls xs (SmartDoor_SmartDoor ident))) = 180"
    using door_inv_reachable [of xs ident] by (simp add: door_inv_def)
  show ?thesis
    using devices gen [of d] gen [of "SmartDoor_calls xs (SmartDoor_SmartDoor ident)"] lim
    unfolding Let_def by blast
qed

text \<open>On the door \<open>D1\<close> after \<open>initialize()\<close>, which is safe: \<open>open()\<close> and \<open>close()\<close>
  both return \<open>true\<close>.\<close>

theorem safe_open_close_succeed_witness:
  "SmartDoor_isSafeToOperate (SmartDoor_calls [Initialize] (SmartDoor_SmartDoor ''D1''))
   \<and> minAngle (lockServo (SmartDoor_calls [Initialize] (SmartDoor_SmartDoor ''D1''))) = 0
   \<and> maxAngle (lockServo (SmartDoor_calls [Initialize] (SmartDoor_SmartDoor ''D1''))) = 180
   \<and> fst (SmartDoor_open (SmartDoor_calls [Initialize] (SmartDoor_SmartDoor ''D1'')))
   \<and> currentState (snd (SmartDoor_open
       (SmartDoor_calls [Initialize] (SmartDoor_SmartDoor ''D1'')))) = OPEN
   \<and> fst (SmartDoor_close (SmartDoor_calls [Initialize, Open] (SmartDoor_SmartDoor ''D1'')))
   \<and> currentState (snd (SmartDoor_close
       (SmartDoor_calls [Initialize, Open] (SmartDoor_SmartDoor ''D1'')))) = CLOSED_LOCKED"
  using safe_open_close_succeed
          [where d = "SmartDoor_calls [Initialize] (SmartDoor_SmartDoor ''D1'')"
             and s = "Servo_Servo ''S''" and xs = "[Initialize, Open]" and ident = "''D1''"]
        safe_open_close_succeed
          [where d = "SmartDoor_calls [Initialize, Open] (SmartDoor_SmartDoor ''D1'')"
             and s = "Servo_Servo ''S''" and xs = "[Initialize]" and ident = "''D1''"]
  by (simp add: SmartDoor_defs Servo_defs Contractor_defs Let_def)

subsection \<open>C4: \<open>reset()\<close> in \<open>ERROR_STATE\<close>\<close>

text \<open>
  Claim C4. On every door record whose state is \<open>ERROR_STATE\<close>, \<open>isSafeToOperate()\<close> is
  false, so \<open>close()\<close> returns \<open>false\<close> and changes nothing, and so does \<open>reset()\<close>,
  which calls it: the door after the failed \<open>reset()\<close> is the door before it, field by
  field.
\<close>

theorem reset_fails_in_error_state:
  "currentState d = ERROR_STATE \<Longrightarrow>
     \<not> SmartDoor_isSafeToOperate d
     \<and> SmartDoor_close d = (False, d)
     \<and> SmartDoor_reset d = (False, d)"
  by (simp add: SmartDoor_reset_def SmartDoor_close_def SmartDoor_isSafeToOperate_def)

text \<open>On the door \<open>D1\<close> after three failed \<open>open()\<close> calls, which is in
  \<open>ERROR_STATE\<close>.\<close>

theorem reset_fails_in_error_state_witness:
  "currentState (SmartDoor_calls [Open, Open, Open] (SmartDoor_SmartDoor ''D1'')) = ERROR_STATE
   \<and> SmartDoor_reset (SmartDoor_calls [Open, Open, Open] (SmartDoor_SmartDoor ''D1''))
       = (False, SmartDoor_calls [Open, Open, Open] (SmartDoor_SmartDoor ''D1''))"
proof -
  have err: "currentState (SmartDoor_calls [Open, Open, Open] (SmartDoor_SmartDoor ''D1''))
      = ERROR_STATE"
    by (simp add: SmartDoor_defs Servo_defs Contractor_defs Let_def)
  from reset_fails_in_error_state [OF err] err show ?thesis by simp
qed

subsection \<open>C5: \<open>Contractor::stop\<close>\<close>

text \<open>
  Claim C5 as stated: in every motion state other than \<open>EXTENDED\<close> and \<open>RETRACTED\<close>,
  \<open>stop()\<close> sets the state to \<open>EXTENDED\<close> when the position is above 50 and to
  \<open>RETRACTED\<close> otherwise. The guard of \<open>stop()\<close> names \<open>EXTENDING\<close> and \<open>RETRACTING\<close>
  only, so the claim fails for the fifth value of the enumeration: an actuator in state
  \<open>ERROR\<close> at position 60 stays in \<open>ERROR\<close>.
\<close>

theorem stop_in_error_counterexample:
  "c_currentState
     (Contractor_Contractor ''A'' 250 \<lparr>c_currentState := ERROR, currentPosition := 60\<rparr>)
     \<noteq> EXTENDED
   \<and> c_currentState
     (Contractor_Contractor ''A'' 250 \<lparr>c_currentState := ERROR, currentPosition := 60\<rparr>)
     \<noteq> RETRACTED
   \<and> currentPosition
     (Contractor_Contractor ''A'' 250 \<lparr>c_currentState := ERROR, currentPosition := 60\<rparr>)
     > 50
   \<and> c_currentState (Contractor_stop
     (Contractor_Contractor ''A'' 250 \<lparr>c_currentState := ERROR, currentPosition := 60\<rparr>))
     \<noteq> EXTENDED"
  by (simp add: Contractor_defs)

text \<open>
  Claim C5, amended. For every actuator record: in state \<open>EXTENDING\<close> or \<open>RETRACTING\<close>,
  \<open>stop()\<close> sets the state to \<open>EXTENDED\<close> when the position is above 50 and to
  \<open>RETRACTED\<close> when it is at most 50, and changes no other field; in every other state
  (\<open>EXTENDED\<close>, \<open>RETRACTED\<close>, \<open>ERROR\<close>) \<open>stop()\<close> changes nothing. The position is the
  same after \<open>stop()\<close> in all cases.
\<close>

theorem stop_snaps_only_while_moving:
  "(c_currentState c = EXTENDING \<or> c_currentState c = RETRACTING \<longrightarrow>
      Contractor_stop c =
        c\<lparr>c_currentState := (if currentPosition c > 50 then EXTENDED else RETRACTED)\<rparr>)
   \<and> (c_currentState c = EXTENDED \<or> c_currentState c = RETRACTED \<or> c_currentState c = ERROR
        \<longrightarrow> Contractor_stop c = c)
   \<and> currentPosition (Contractor_stop c) = currentPosition c"
  by (auto simp: Contractor_stop_def)

text \<open>An actuator stopped while \<open>EXTENDING\<close> at 60 reports \<open>EXTENDED\<close>, one stopped while
  \<open>RETRACTING\<close> at 50 reports \<open>RETRACTED\<close>, and the actuator as constructed is left as it
  is.\<close>

theorem stop_snaps_only_while_moving_witness:
  "c_currentState (Contractor_stop
     (Contractor_Contractor ''A'' 250 \<lparr>c_currentState := EXTENDING, currentPosition := 60\<rparr>))
     = EXTENDED
   \<and> c_currentState (Contractor_stop
     (Contractor_Contractor ''A'' 250 \<lparr>c_currentState := RETRACTING, currentPosition := 50\<rparr>))
     = RETRACTED
   \<and> Contractor_stop (Contractor_Contractor ''A'' 250) = Contractor_Contractor ''A'' 250"
  using stop_snaps_only_while_moving
          [of "Contractor_Contractor ''A'' 250
                 \<lparr>c_currentState := EXTENDING, currentPosition := 60\<rparr>"]
        stop_snaps_only_while_moving
          [of "Contractor_Contractor ''A'' 250
                 \<lparr>c_currentState := RETRACTING, currentPosition := 50\<rparr>"]
        stop_snaps_only_while_moving [of "Contractor_Contractor ''A'' 250"]
  by (simp add: Contractor_Contractor_def)

subsection \<open>C6: \<open>SmartDoor::emergencyStop\<close>\<close>

text \<open>
  Claim C6. \<open>emergencyStop()\<close> has no precondition and no failure: on every door record
  it replaces the actuator by the result of its \<open>stop()\<close>, sets the door state to \<open>OPEN\<close>
  when the actuator position is above 50 and to \<open>CLOSED_UNLOCKED\<close> otherwise, never to
  \<open>ERROR_STATE\<close>, and leaves the lock servo (and the ready flag and the counter) as they
  are. In particular a door in state \<open>OPENING\<close> with the actuator at 60 ends in \<open>OPEN\<close>.
\<close>

theorem emergencyStop_unconditional:
  "doorActuator (SmartDoor_emergencyStop d) = Contractor_stop (doorActuator d)
   \<and> currentState (SmartDoor_emergencyStop d) =
       (if currentPosition (doorActuator d) > 50 then OPEN else CLOSED_UNLOCKED)
   \<and> currentState (SmartDoor_emergencyStop d) \<noteq> ERROR_STATE
   \<and> lockServo (SmartDoor_emergencyStop d) = lockServo d
   \<and> isSystemReady (SmartDoor_emergencyStop d) = isSystemReady d
   \<and> openAttempts (SmartDoor_emergencyStop d) = openAttempts d
   \<and> (currentState d = OPENING \<and> currentPosition (doorActuator d) = 60 \<longrightarrow>
        currentState (SmartDoor_emergencyStop d) = OPEN)"
  by (simp add: SmartDoor_emergencyStop_def Contractor_getPosition_def Contractor_stop_def
      Let_def)

text \<open>The door \<open>D1\<close> caught in \<open>OPENING\<close> with its actuator \<open>EXTENDING\<close> at 60.\<close>

theorem emergencyStop_unconditional_witness:
  "currentState (SmartDoor_emergencyStop
     (SmartDoor_SmartDoor ''D1''
        \<lparr>doorActuator := Contractor_Contractor ''DoorActuator_D1'' 250
           \<lparr>c_currentState := EXTENDING, currentPosition := 60\<rparr>,
         currentState := OPENING\<rparr>)) = OPEN
   \<and> c_currentState (doorActuator (SmartDoor_emergencyStop
     (SmartDoor_SmartDoor ''D1''
        \<lparr>doorActuator := Contractor_Contractor ''DoorActuator_D1'' 250
           \<lparr>c_currentState := EXTENDING, currentPosition := 60\<rparr>,
         currentState := OPENING\<rparr>))) = EXTENDED"
  using emergencyStop_unconditional
          [of "SmartDoor_SmartDoor ''D1''
                 \<lparr>doorActuator := Contractor_Contractor ''DoorActuator_D1'' 250
                    \<lparr>c_currentState := EXTENDING, currentPosition := 60\<rparr>,
                  currentState := OPENING\<rparr>"]
  by (simp add: SmartDoor_SmartDoor_def Contractor_Contractor_def Contractor_stop_def)

subsection \<open>C7: initialize, open, close on a new door\<close>

text \<open>
  Claim C7. On the door as constructed, for every identifier: \<open>initialize()\<close> returns
  \<open>true\<close> and leaves \<open>CLOSED_LOCKED\<close>, the ready flag set, servo angle 0 and actuator
  position 0; \<open>open()\<close> then returns \<open>true\<close> and leaves \<open>OPEN\<close>, angle 90, position 100;
  \<open>close()\<close> then returns \<open>true\<close> and leaves \<open>CLOSED_LOCKED\<close>, angle 0, position 0.
\<close>

theorem new_door_initialize_open_close:
  "(let (r1, d1) = SmartDoor_initialize (SmartDoor_SmartDoor ident);
        (r2, d2) = SmartDoor_open d1;
        (r3, d3) = SmartDoor_close d2
    in r1 \<and> SmartDoor_getState d1 = CLOSED_LOCKED \<and> isSystemReady d1
         \<and> Servo_getAngle (lockServo d1) = 0
         \<and> Contractor_getPosition (doorActuator d1) = 0
       \<and> r2 \<and> SmartDoor_getState d2 = OPEN
         \<and> Servo_getAngle (lockServo d2) = 90
         \<and> Contractor_getPosition (doorActuator d2) = 100
       \<and> r3 \<and> SmartDoor_getState d3 = CLOSED_LOCKED
         \<and> Servo_getAngle (lockServo d3) = 0
         \<and> Contractor_getPosition (doorActuator d3) = 0)"
  by (simp add: SmartDoor_defs Contractor_defs Servo_defs Let_def)

text \<open>The scenario on the door \<open>D1\<close>, call by call.\<close>

theorem new_door_initialize_open_close_witness:
  "fst (SmartDoor_initialize (SmartDoor_SmartDoor ''D1''))
   \<and> fst (SmartDoor_open (snd (SmartDoor_initialize (SmartDoor_SmartDoor ''D1''))))
   \<and> fst (SmartDoor_close
       (snd (SmartDoor_open (snd (SmartDoor_initialize (SmartDoor_SmartDoor ''D1''))))))
   \<and> SmartDoor_getState (snd (SmartDoor_close
       (snd (SmartDoor_open (snd (SmartDoor_initialize (SmartDoor_SmartDoor ''D1'')))))))
       = CLOSED_LOCKED"
  using new_door_initialize_open_close [of "''D1''"]
  by (simp add: Let_def split: prod.splits)

subsection \<open>C8: \<open>Servo::setAngle\<close>\<close>

text \<open>
  Claim C8. For every servo record \<open>s\<close> and every integer \<open>a\<close>: when
  \<open>minAngle \<le> a \<le> maxAngle\<close>, \<open>setAngle(a)\<close> returns \<open>true\<close> and \<open>getAngle()\<close> then
  returns \<open>a\<close>, whatever the calibration flag; otherwise \<open>setAngle(a)\<close> returns \<open>false\<close>
  and the servo is unchanged. On the servo as constructed, which is not calibrated and has
  the limits 0 and 180, every \<open>a\<close> from 0 to 180 is accepted.
\<close>

theorem setAngle_range_check:
  "(minAngle s \<le> a \<and> a \<le> maxAngle s \<longrightarrow>
      fst (Servo_setAngle a s) \<and> Servo_getAngle (snd (Servo_setAngle a s)) = a)
   \<and> (\<not> (minAngle s \<le> a \<and> a \<le> maxAngle s) \<longrightarrow>
      \<not> fst (Servo_setAngle a s) \<and> snd (Servo_setAngle a s) = s)
   \<and> (0 \<le> a \<and> a \<le> 180 \<longrightarrow>
      \<not> Servo_isCalibratedStatus (Servo_Servo n)
      \<and> fst (Servo_setAngle a (Servo_Servo n))
      \<and> Servo_getAngle (snd (Servo_setAngle a (Servo_Servo n))) = a)"
  by (auto simp: Servo_defs)

text \<open>On the servo as constructed: 45 is accepted and read back, 181 is refused and the
  angle stays 90.\<close>

theorem setAngle_range_check_witness:
  "fst (Servo_setAngle 45 (Servo_Servo ''S''))
   \<and> Servo_getAngle (snd (Servo_setAngle 45 (Servo_Servo ''S''))) = 45
   \<and> \<not> fst (Servo_setAngle 181 (Servo_Servo ''S''))
   \<and> Servo_getAngle (snd (Servo_setAngle 181 (Servo_Servo ''S''))) = 90"
  using setAngle_range_check [of "Servo_Servo ''S''" 45 "''S''"]
        setAngle_range_check [of "Servo_Servo ''S''" 181 "''S''"]
  by (simp add: Servo_Servo_def Servo_getAngle_def)

subsection \<open>C9: extend, then retract\<close>

text \<open>
  Claim C9. On every initialized actuator record, \<open>extend()\<close> returns \<open>true\<close>, the
  \<open>retract()\<close> after it returns \<open>true\<close>, and the actuator ends at position 0 in state
  \<open>RETRACTED\<close>.
\<close>

theorem extend_retract_roundtrip:
  "isInitialized c \<Longrightarrow>
     fst (Contractor_extend c)
     \<and> fst (Contractor_retract (snd (Contractor_extend c)))
     \<and> Contractor_getPosition (snd (Contractor_retract (snd (Contractor_extend c)))) = 0
     \<and> Contractor_getState (snd (Contractor_retract (snd (Contractor_extend c))))
         = RETRACTED"
  by (simp add: Contractor_defs Let_def)

text \<open>On the actuator as constructed and initialized; \<open>extend()\<close> takes it to 100 in
  between.\<close>

theorem extend_retract_roundtrip_witness:
  "isInitialized (snd (Contractor_initialize (Contractor_Contractor ''A'' 250)))
   \<and> Contractor_getPosition
       (snd (Contractor_extend (snd (Contractor_initialize (Contractor_Contractor ''A'' 250)))))
       = 100
   \<and> Contractor_getPosition (snd (Contractor_retract
       (snd (Contractor_extend (snd (Contractor_initialize (Contractor_Contractor ''A'' 250)))))))
       = 0"
proof -
  have init: "isInitialized (snd (Contractor_initialize (Contractor_Contractor ''A'' 250)))"
    by (simp add: Contractor_initialize_def Let_def)
  from extend_retract_roundtrip [OF init] init show ?thesis
    by (simp add: Contractor_defs Let_def)
qed

subsection \<open>C10: the actuator never reports \<open>ERROR\<close>\<close>

text \<open>
  Claim C10. For every name, every maximal extension and every sequence of the calls
  \<open>initialize()\<close>, \<open>extend()\<close>, \<open>retract()\<close>, \<open>stop()\<close> and \<open>setSpeed(n)\<close> on the
  actuator as constructed, the actuator \<open>c\<close> after the sequence is not in state \<open>ERROR\<close>,
  \<open>isReady()\<close> equals the \<open>isInitialized\<close> flag, the position is 0 or 100, and it is 100
  exactly when the state is \<open>EXTENDED\<close>. Every prefix of a sequence is a sequence, so this
  covers the state after each call.
\<close>

theorem contractor_never_error:
  "(let c = Contractor_calls xs (Contractor_Contractor n m) in
      Contractor_getState c \<noteq> ERROR
      \<and> Contractor_isReady c = isInitialized c
      \<and> (Contractor_getPosition c = 0 \<or> Contractor_getPosition c = 100)
      \<and> (Contractor_getPosition c = 100 \<longleftrightarrow> Contractor_getState c = EXTENDED))"
  using Contractor_inv_calls [OF Contractor_inv_new, of xs n m]
  by (auto simp: Let_def Contractor_inv_def Contractor_isReady_def Contractor_getState_def
      Contractor_getPosition_def)

text \<open>One run: \<open>initialize\<close>, \<open>extend\<close>, \<open>stop\<close>, \<open>setSpeed(3)\<close>, and the same run
  followed by \<open>retract\<close>.\<close>

theorem contractor_never_error_witness:
  "Contractor_getState
     (Contractor_calls [CInitialize, CExtend, CStop, CSetSpeed 3]
        (Contractor_Contractor ''A'' 250)) = EXTENDED
   \<and> Contractor_getPosition
     (Contractor_calls [CInitialize, CExtend, CStop, CSetSpeed 3]
        (Contractor_Contractor ''A'' 250)) = 100
   \<and> Contractor_getPosition
     (Contractor_calls [CInitialize, CExtend, CStop, CSetSpeed 3, CRetract]
        (Contractor_Contractor ''A'' 250)) = 0"
  using contractor_never_error
          [of "[CInitialize, CExtend, CStop, CSetSpeed 3]" "''A''" 250]
        contractor_never_error
          [of "[CInitialize, CExtend, CStop, CSetSpeed 3, CRetract]" "''A''" 250]
  by (simp add: Contractor_defs Let_def)

end
